theory Spec2Isabelle
  imports Complex_Main "HOL-Library.Char_ord" "HOL-Library.List_Lexorder" "HOL-Library.Multiset"
begin

section \<open>Python values\<close>

text \<open>
  The values that \<^verbatim>\<open>response.json()\<close> and \<^verbatim>\<open>yaml.safe_load\<close> hand to the
  script: None, booleans, integers, floats (by their exact rational value), strings
  (as their UTF-8 bytes, whose bytewise order is the order of the code points), lists
  and dictionaries. A dictionary is an association list in insertion order; its keys
  are pairwise different, as in a Python dict. The floats NaN and infinity have no
  rational value and are left out.
\<close>

datatype pyval =
    PNone
  | PBool bool
  | PInt int
  | PFloat rat
  | PStr string
  | PList "pyval list"
  | PDict "(pyval \<times> pyval) list"

datatype py_exception = KeyError | TypeError | AttributeError

text \<open>Truth value of an object, as \<^verbatim>\<open>not result\<close> tests it.\<close>

fun truthy :: "pyval \<Rightarrow> bool" where
  "truthy PNone = False"
| "truthy (PBool b) = b"
| "truthy (PInt i) = (i \<noteq> 0)"
| "truthy (PFloat r) = (r \<noteq> 0)"
| "truthy (PStr s) = (s \<noteq> [])"
| "truthy (PList xs) = (xs \<noteq> [])"
| "truthy (PDict d) = (d \<noteq> [])"

definition dict_lookup :: "(pyval \<times> pyval) list \<Rightarrow> string \<Rightarrow> pyval option" where
  "dict_lookup d k = map_of d (PStr k)"

text \<open>\<^verbatim>\<open>result.get(k, dflt)\<close>: only a dict has the method.\<close>

fun py_get :: "pyval \<Rightarrow> string \<Rightarrow> pyval \<Rightarrow> py_exception + pyval" where
  "py_get (PDict d) k dflt = Inr (case dict_lookup d k of Some v \<Rightarrow> v | None \<Rightarrow> dflt)"
| "py_get _ k dflt = Inl AttributeError"

text \<open>
  \<^verbatim>\<open>for label in v\<close>: a list gives its elements, a dict its keys, a string its
  characters (here one per byte; each of them fails at the subscript below, so only
  emptiness matters); nothing else is iterable.
\<close>

fun py_iter :: "pyval \<Rightarrow> py_exception + pyval list" where
  "py_iter (PList xs) = Inr xs"
| "py_iter (PDict d) = Inr (map fst d)"
| "py_iter (PStr s) = Inr (map (\<lambda>c. PStr [c]) s)"
| "py_iter _ = Inl TypeError"

text \<open>\<^verbatim>\<open>label[k]\<close> with a string key.\<close>

fun py_subscript :: "pyval \<Rightarrow> string \<Rightarrow> py_exception + pyval" where
  "py_subscript (PDict d) k =
     (case dict_lookup d k of Some v \<Rightarrow> Inr v | None \<Rightarrow> Inl KeyError)"
| "py_subscript _ k = Inl TypeError"

text \<open>\<^verbatim>\<open>str(n)\<close> of an integer, as the f-string of the endpoint formats it.\<close>

fun str_nat :: "nat \<Rightarrow> string" where
  "str_nat n = (if n < 10 then [char_of (48 + n)] else str_nat (n div 10) @ [char_of (48 + n mod 10)])"

declare str_nat.simps [simp del]

definition str_int :: "int \<Rightarrow> string" where
  "str_int i = (if i < 0 then CHR ''-'' # str_nat (nat (- i)) else str_nat (nat i))"

section \<open>The fixed configuration\<close>

definition success_status_code :: int where "success_status_code = 200"
definition not_found_status_code :: int where "not_found_status_code = 404"
definition response_truncate_length :: nat where "response_truncate_length = 100"
definition api_version :: string where "api_version = ''application/vnd.github.v3+json''"
definition user_agent :: string where "user_agent = ''Label-Verifier/1.0''"
definition issue_keyword :: string where "issue_keyword = ''Issue''"
definition pr_keyword :: string where "pr_keyword = ''PR''"
definition sort_labels :: bool where "sort_labels = True"
definition required_fields :: "string list" where
  "required_fields = [''target_repo'', ''expected_labels'', ''issue_range'']"

section \<open>What the script prints\<close>

text \<open>
  One constructor per print statement (or group of adjacent ones) of the script, with
  the values the message is formatted from; the list of them, in order, is the output of
  a call.
\<close>

datatype printed =
    Api_error string int "nat list"
  | Request_exception string string
  | Verification_start string string int int
  | Checking string int
  | Fetch_failed string int
  | Labels_match string int "pyval list"
  | Labels_mismatch string int "pyval list" "pyval list"
  | All_checks_passed
  | Some_checks_failed

section \<open>The remote API\<close>

text \<open>
  \<^verbatim>\<open>requests.get(url, headers=headers)\<close> either raises (the message of the exception
  is kept) or returns a response, of which the script reads the status code, the text
  and \<^verbatim>\<open>json()\<close>, which raises on a body that is not JSON. The text is kept as
  the list of its code points, which is what the slice \<^verbatim>\<open>response.text[:100]\<close>
  counts. A run requests the address of each configured item once, so the remote is a
  function of the address and the headers.
\<close>

text \<open>The code points of a string of ASCII characters.\<close>

definition code_points :: "string \<Rightarrow> nat list" where
  "code_points s = map of_char s"

record response =
  status_code :: int
  text_body :: "nat list"
  json :: "string + pyval"

datatype http_outcome = Request_raises string | Response response

type_synonym requests_get = "string \<Rightarrow> (string \<times> string) list \<Rightarrow> http_outcome"

definition get_github_headers :: "string \<Rightarrow> (string \<times> string) list" where
  "get_github_headers token =
     [(''Authorization'', ''Bearer '' @ token),
      (''Accept'', api_version),
      (''User-Agent'', user_agent)]"

text \<open>\<^verbatim>\<open>_get_github_api\<close>: the pair it returns, and what it prints.\<close>

definition get_github_api ::
  "requests_get \<Rightarrow> string \<Rightarrow> (string \<times> string) list \<Rightarrow> string \<Rightarrow> string
     \<Rightarrow> (bool \<times> pyval) \<times> printed list" where
  "get_github_api get endpoint headers org repo =
     (let url = ''https://api.github.com/repos/'' @ org @ ''/'' @ repo @ ''/'' @ endpoint in
      case get url headers of
        Request_raises msg \<Rightarrow> ((False, PNone), [Request_exception endpoint msg])
      | Response r \<Rightarrow>
          if status_code r = success_status_code then
            (case json r of
               Inr v \<Rightarrow> ((True, v), [])
             | Inl msg \<Rightarrow> ((False, PNone), [Request_exception endpoint msg]))
          else if status_code r = not_found_status_code then ((False, PNone), [])
          else ((False, PNone),
                [Api_error endpoint (status_code r) (take response_truncate_length (text_body r))]))"

text \<open>The comprehension \<^verbatim>\<open>[label["name"] for label in ...]\<close>, left to right.\<close>

fun label_names :: "pyval list \<Rightarrow> py_exception + pyval list" where
  "label_names [] = Inr []"
| "label_names (label # rest) =
     (case py_subscript label ''name'' of
        Inl e \<Rightarrow> Inl e
      | Inr v \<Rightarrow> (case label_names rest of Inl e \<Rightarrow> Inl e | Inr vs \<Rightarrow> Inr (v # vs)))"

text \<open>
  \<^verbatim>\<open>_get_item_labels\<close>: \<open>Inr None\<close> is the returned None, \<open>Inr (Some names)\<close> the
  returned list, \<open>Inl e\<close> an exception that leaves the function.
\<close>

definition get_item_labels ::
  "requests_get \<Rightarrow> int \<Rightarrow> (string \<times> string) list \<Rightarrow> string \<Rightarrow> string
     \<Rightarrow> (py_exception + pyval list option) \<times> printed list" where
  "get_item_labels get item_number headers org repo =
     (case get_github_api get (''issues/'' @ str_int item_number) headers org repo of
        ((success, result), out) \<Rightarrow>
          if \<not> success \<or> \<not> truthy result then (Inr None, out)
          else
            (case py_get result ''labels'' (PList []) of
               Inl e \<Rightarrow> (Inl e, out)
             | Inr ls \<Rightarrow>
                 (case py_iter ls of
                    Inl e \<Rightarrow> (Inl e, out)
                  | Inr labels \<Rightarrow>
                      (case label_names labels of
                         Inl e \<Rightarrow> (Inl e, out)
                       | Inr names \<Rightarrow> (Inr (Some names), out)))))"

section \<open>The verification engine\<close>

text \<open>
  The configuration as \<^verbatim>\<open>run_verification\<close> reads it: the target repository, the
  expected labels of each item number (a dict, in insertion order) and the two bounds
  that \<^verbatim>\<open>load_project_config\<close> stored.
\<close>

record verification_config =
  target_repo :: string
  expected_labels :: "(int \<times> string list) list"
  issue_min :: int
  issue_max :: int

text \<open>The conditional expression that names the kind of an item.\<close>

definition item_type :: "verification_config \<Rightarrow> int \<Rightarrow> string" where
  "item_type config item_number =
     (if issue_min config \<le> item_number \<and> item_number \<le> issue_max config
      then issue_keyword else pr_keyword)"

fun is_str :: "pyval \<Rightarrow> bool" where
  "is_str (PStr s) = True"
| "is_str _ = False"

fun str_of :: "pyval \<Rightarrow> string" where
  "str_of (PStr s) = s"
| "str_of _ = []"

text \<open>
  \<^verbatim>\<open>sorted(xs)\<close>. On a list of strings it is the list in ascending order. On a list
  with an element that is not a string, whether the builtin raises TypeError or returns
  depends on the comparisons it happens to make; that part of the builtin is the
  parameter \<open>sorted_other\<close>, and nothing is assumed of it.
\<close>

definition py_sorted ::
  "(pyval list \<Rightarrow> py_exception + pyval list) \<Rightarrow> pyval list \<Rightarrow> py_exception + pyval list" where
  "py_sorted sorted_other xs =
     (if list_all is_str xs then Inr (map PStr (sort (map str_of xs))) else sorted_other xs)"

text \<open>
  Lines 170 to 173: the sorted (or, with the toggle off, the given) lists and the result
  of \<^verbatim>\<open>actual_sorted == expected_sorted\<close>. The expected labels are strings.
\<close>

definition compare_labels ::
  "(pyval list \<Rightarrow> py_exception + pyval list) \<Rightarrow> pyval list \<Rightarrow> string list
     \<Rightarrow> py_exception + (pyval list \<times> pyval list \<times> bool)" where
  "compare_labels sorted_other actual_labels expected =
     (case (if sort_labels then py_sorted sorted_other actual_labels else Inr actual_labels) of
        Inl e \<Rightarrow> Inl e
      | Inr actual_sorted \<Rightarrow>
          (let expected_sorted = map PStr (if sort_labels then sort expected else expected)
           in Inr (actual_sorted, expected_sorted, actual_sorted = expected_sorted)))"

text \<open>
  The loop of \<^verbatim>\<open>run_verification\<close> over the entries that are left, from the current
  value of \<^verbatim>\<open>all_passed\<close>: the value of \<^verbatim>\<open>all_passed\<close> after the loop (or the exception
  that ended it) and everything printed on the way.
\<close>

fun verify_items ::
  "(pyval list \<Rightarrow> py_exception + pyval list) \<Rightarrow> requests_get \<Rightarrow> verification_config
     \<Rightarrow> (string \<times> string) list \<Rightarrow> string \<Rightarrow> bool \<Rightarrow> (int \<times> string list) list
     \<Rightarrow> (py_exception + bool) \<times> printed list" where
  "verify_items sorted_other get config headers github_org all_passed [] = (Inr all_passed, [])"
| "verify_items sorted_other get config headers github_org all_passed ((item_number, expected) # rest) =
     (let kind = item_type config item_number in
      case get_item_labels get item_number headers github_org (target_repo config) of
        (Inl e, out) \<Rightarrow> (Inl e, Checking kind item_number # out)
      | (Inr None, out) \<Rightarrow>
          (case verify_items sorted_other get config headers github_org False rest of
             (res, out') \<Rightarrow>
               (res, Checking kind item_number # out @ Fetch_failed kind item_number # out'))
      | (Inr (Some actual_labels), out) \<Rightarrow>
          (case compare_labels sorted_other actual_labels expected of
             Inl e \<Rightarrow> (Inl e, Checking kind item_number # out)
           | Inr (actual_sorted, expected_sorted, equal) \<Rightarrow>
               if equal then
                 (case verify_items sorted_other get config headers github_org all_passed rest of
                    (res, out') \<Rightarrow>
                      (res, Checking kind item_number # out
                              @ Labels_match kind item_number actual_sorted # out'))
               else
                 (case verify_items sorted_other get config headers github_org False rest of
                    (res, out') \<Rightarrow>
                      (res, Checking kind item_number # out
                              @ Labels_mismatch kind item_number expected_sorted actual_sorted # out'))))"

definition run_verification ::
  "(pyval list \<Rightarrow> py_exception + pyval list) \<Rightarrow> requests_get \<Rightarrow> verification_config
     \<Rightarrow> string \<Rightarrow> string \<Rightarrow> (py_exception + bool) \<times> printed list" where
  "run_verification sorted_other get config github_token github_org =
     (let headers = get_github_headers github_token;
          start = Verification_start github_org (target_repo config)
                    (issue_min config) (issue_max config)
      in case verify_items sorted_other get config headers github_org True (expected_labels config) of
           (Inl e, out) \<Rightarrow> (Inl e, start # out)
         | (Inr all_passed, out) \<Rightarrow>
             (Inr all_passed,
              start # out @ [if all_passed then All_checks_passed else Some_checks_failed]))"

text \<open>
  The outcome printed for an item: its number and whether it is the success message.
  Every turn of the loop that ends prints exactly one of the three.
\<close>

fun item_results :: "printed list \<Rightarrow> (int \<times> bool) list" where
  "item_results [] = []"
| "item_results (Fetch_failed k n # out) = (n, False) # item_results out"
| "item_results (Labels_match k n ls # out) = (n, True) # item_results out"
| "item_results (Labels_mismatch k n es ls # out) = (n, False) # item_results out"
| "item_results (_ # out) = item_results out"

section \<open>Loading the project configuration\<close>

text \<open>
  What \<^verbatim>\<open>load_project_config\<close> finds at the path: no file, a file that cannot be read
  or parsed (with the message of the exception), or the value that
  \<^verbatim>\<open>yaml.safe_load\<close> returns.
\<close>

datatype config_file = No_such_file | Load_raises string | Loaded pyval

text \<open>
  The four messages after which the function ends the process with status 1: file
  missing, required field missing, issue range malformed, any other exception.
\<close>

datatype config_error =
    Config_file_missing
  | Missing_field string
  | Bad_issue_range
  | Load_failed

fun is_substring :: "string \<Rightarrow> string \<Rightarrow> bool" where
  "is_substring p [] = (p = [])"
| "is_substring p (c # s) = (take (length p) (c # s) = p \<or> is_substring p s)"

text \<open>\<^verbatim>\<open>field in config\<close> for a string \<open>field\<close>.\<close>

fun py_contains :: "pyval \<Rightarrow> string \<Rightarrow> py_exception + bool" where
  "py_contains (PDict d) field = Inr (PStr field \<in> set (map fst d))"
| "py_contains (PList xs) field = Inr (PStr field \<in> set xs)"
| "py_contains (PStr s) field = Inr (is_substring field s)"
| "py_contains _ field = Inl TypeError"

text \<open>The loop over the required fields: the first that is missing, or the exception.\<close>

fun check_fields :: "pyval \<Rightarrow> string list \<Rightarrow> config_error option" where
  "check_fields config [] = None"
| "check_fields config (field # rest) =
     (case py_contains config field of
        Inl e \<Rightarrow> Some Load_failed
      | Inr False \<Rightarrow> Some (Missing_field field)
      | Inr True \<Rightarrow> check_fields config rest)"

text \<open>\<^verbatim>\<open>s.split(sep)\<close> with a separator of one character.\<close>

fun split_on :: "char \<Rightarrow> string \<Rightarrow> string list" where
  "split_on sep [] = [[]]"
| "split_on sep (c # s) =
     (if c = sep then [] # split_on sep s
      else (case split_on sep s of [] \<Rightarrow> [[c]] | p # ps \<Rightarrow> (c # p) # ps))"

text \<open>
  \<^verbatim>\<open>issue_min, issue_max = map(int, parts)\<close>: the two integers, or None for the
  ValueError of a wrong number of parts or of a part that \<^verbatim>\<open>int\<close> rejects. The
  builtin \<^verbatim>\<open>int\<close> on a string is the parameter \<open>py_int\<close> (None where it raises
  ValueError).
\<close>

fun unpack_two_ints :: "(string \<Rightarrow> int option) \<Rightarrow> string list \<Rightarrow> (int \<times> int) option" where
  "unpack_two_ints py_int [a, b] =
     (case py_int a of
        None \<Rightarrow> None
      | Some lo \<Rightarrow> (case py_int b of None \<Rightarrow> None | Some hi \<Rightarrow> Some (lo, hi)))"
| "unpack_two_ints py_int parts = None"

text \<open>\<^verbatim>\<open>config[k] = v\<close> on a dict: the value replaced in place, or a new last entry.\<close>

fun dict_set :: "(pyval \<times> pyval) list \<Rightarrow> string \<Rightarrow> pyval \<Rightarrow> (pyval \<times> pyval) list" where
  "dict_set [] k v = [(PStr k, v)]"
| "dict_set ((k', v') # d) k v =
     (if k' = PStr k then (k', v) # d else (k', v') # dict_set d k v)"

definition load_project_config ::
  "(string \<Rightarrow> int option) \<Rightarrow> config_file \<Rightarrow> config_error + (pyval \<times> pyval) list" where
  "load_project_config py_int file =
     (case file of
        No_such_file \<Rightarrow> Inl Config_file_missing
      | Load_raises msg \<Rightarrow> Inl Load_failed
      | Loaded config \<Rightarrow>
          (case check_fields config required_fields of
             Some err \<Rightarrow> Inl err
           | None \<Rightarrow>
               (case config of
                  PDict d \<Rightarrow>
                    (case dict_lookup d ''issue_range'' of
                       Some (PStr s) \<Rightarrow>
                         (case unpack_two_ints py_int (split_on CHR ''-'' s) of
                            None \<Rightarrow> Inl Bad_issue_range
                          | Some (lo, hi) \<Rightarrow>
                              Inr (dict_set (dict_set d ''issue_min'' (PInt lo))
                                     ''issue_max'' (PInt hi)))
                     | _ \<Rightarrow> Inl Load_failed)
                | _ \<Rightarrow> Inl Load_failed)))"

text \<open>
  A reading of \<^verbatim>\<open>int\<close> on plain decimal numerals (an optional sign, then one or more
  ASCII digits), on which the builtin returns the same integer; the empty string is
  rejected, as by the builtin. It instantiates \<open>py_int\<close> in the examples.
\<close>

fun digits_value :: "nat \<Rightarrow> string \<Rightarrow> nat option" where
  "digits_value acc [] = Some acc"
| "digits_value acc (c # s) =
     (if CHR ''0'' \<le> c \<and> c \<le> CHR ''9''
      then digits_value (10 * acc + (of_char c - 48)) s else None)"

fun plain_int :: "string \<Rightarrow> int option" where
  "plain_int [] = None"
| "plain_int (c # s) =
     (if c = CHR ''-'' then (if s = [] then None else map_option (\<lambda>n. - int n) (digits_value 0 s))
      else if c = CHR ''+'' then (if s = [] then None else map_option int (digits_value 0 s))
      else map_option int (digits_value 0 (c # s)))"

text \<open>
  The sentence of the specification on the issue range, read literally: the string is
  an integer, a hyphen, an integer.
\<close>

definition two_integers_separated_by_hyphen :: "(string \<Rightarrow> int option) \<Rightarrow> string \<Rightarrow> bool" where
  "two_integers_separated_by_hyphen py_int s =
     list_ex (\<lambda>i. s ! i = CHR ''-'' \<and> py_int (take i s) \<noteq> None \<and> py_int (drop (Suc i) s) \<noteq> None)
       [0..<length s]"

section \<open>Notions used in the statements\<close>

text \<open>
  The address that \<^verbatim>\<open>_get_item_labels\<close> and \<^verbatim>\<open>_get_github_api\<close> together request
  for an item.
\<close>

definition item_url :: "string \<Rightarrow> string \<Rightarrow> int \<Rightarrow> string" where
  "item_url org repo item_number =
     ''https://api.github.com/repos/'' @ org @ ''/'' @ repo @ ''/'' @ ''issues/'' @ str_int item_number"

text \<open>
  A turn of the loop for an entry ends without an exception: the fetch returns (None or
  a list), and sorting the list returns.
\<close>

definition item_completes ::
  "(pyval list \<Rightarrow> py_exception + pyval list) \<Rightarrow> requests_get \<Rightarrow> verification_config
     \<Rightarrow> (string \<times> string) list \<Rightarrow> string \<Rightarrow> int \<times> string list \<Rightarrow> bool" where
  "item_completes sorted_other get config headers github_org entry =
     (case get_item_labels get (fst entry) headers github_org (target_repo config) of
        (Inl e, out) \<Rightarrow> False
      | (Inr None, out) \<Rightarrow> True
      | (Inr (Some actual_labels), out) \<Rightarrow>
          (case compare_labels sorted_other actual_labels (snd entry) of
             Inl e \<Rightarrow> False
           | Inr r \<Rightarrow> True))"

text \<open>
  The passed flag of an entry: the labels were fetched and compare equal to the expected
  ones.
\<close>

definition item_passed ::
  "(pyval list \<Rightarrow> py_exception + pyval list) \<Rightarrow> requests_get \<Rightarrow> verification_config
     \<Rightarrow> (string \<times> string) list \<Rightarrow> string \<Rightarrow> int \<times> string list \<Rightarrow> bool" where
  "item_passed sorted_other get config headers github_org entry =
     (case get_item_labels get (fst entry) headers github_org (target_repo config) of
        (Inr (Some actual_labels), out) \<Rightarrow>
          (case compare_labels sorted_other actual_labels (snd entry) of
             Inl e \<Rightarrow> False
           | Inr (actual_sorted, expected_sorted, equal) \<Rightarrow> equal)
      | _ \<Rightarrow> False)"

section \<open>Example inputs\<close>

text \<open>
  A remote for the repository acme/widgets. Item 1 is labelled bug and item 2 feature;
  item 4 answers 200 with the empty object, item 5 answers 200 with an object that has
  no labels, item 6 answers 200 with a label that has no name, item 7 answers 500, and
  the request for item 8 raises; every other address answers 404.
\<close>

definition example_get :: requests_get where
  "example_get url headers =
     (if url = ''https://api.github.com/repos/acme/widgets/issues/1'' then
        Response \<lparr>status_code = 200, text_body = [],
          json = Inr (PDict [(PStr ''labels'', PList [PDict [(PStr ''name'', PStr ''bug'')]])])\<rparr>
      else if url = ''https://api.github.com/repos/acme/widgets/issues/2'' then
        Response \<lparr>status_code = 200, text_body = [],
          json = Inr (PDict [(PStr ''labels'', PList [PDict [(PStr ''name'', PStr ''feature'')]])])\<rparr>
      else if url = ''https://api.github.com/repos/acme/widgets/issues/4'' then
        Response \<lparr>status_code = 200, text_body = code_points ''{}'', json = Inr (PDict [])\<rparr>
      else if url = ''https://api.github.com/repos/acme/widgets/issues/5'' then
        Response \<lparr>status_code = 200, text_body = [], json = Inr (PDict [(PStr ''id'', PInt 5)])\<rparr>
      else if url = ''https://api.github.com/repos/acme/widgets/issues/6'' then
        Response \<lparr>status_code = 200, text_body = [],
          json = Inr (PDict [(PStr ''labels'', PList [PDict [(PStr ''id'', PInt 1)]])])\<rparr>
      else if url = ''https://api.github.com/repos/acme/widgets/issues/7'' then
        Response \<lparr>status_code = 500, text_body = code_points ''Server Error'', json = Inl ''no JSON''\<rparr>
      else if url = ''https://api.github.com/repos/acme/widgets/issues/8'' then
        Request_raises ''connection refused''
      else Response \<lparr>status_code = 404, text_body = code_points ''Not Found'', json = Inl ''no JSON''\<rparr>)"

definition example_config :: verification_config where
  "example_config =
     \<lparr>target_repo = ''widgets'',
      expected_labels = [(1, [''bug'']), (2, [''enhancement''])],
      issue_min = 1, issue_max = 2\<rparr>"

text \<open>A remote that answers 404 to every request.\<close>

definition not_found_get :: requests_get where
  "not_found_get url headers =
     Response \<lparr>status_code = 404, text_body = code_points ''Not Found'', json = Inl ''no JSON''\<rparr>"

text \<open>A remote that answers 200 with a body that is not JSON.\<close>

definition html_get :: requests_get where
  "html_get url headers =
     Response \<lparr>status_code = 200, text_body = code_points ''<html>'', json = Inl ''Expecting value''\<rparr>"

text \<open>
  A remote that answers 503 with a body of 150 characters, each the letter e with an
  acute accent (code point 233, two bytes in UTF-8).
\<close>

definition busy_get :: requests_get where
  "busy_get url headers =
     Response \<lparr>status_code = 503, text_body = replicate 150 233, json = Inl ''no JSON''\<rparr>"

text \<open>Raw configurations with the three required fields and a given issue range.\<close>

definition raw_config :: "string \<Rightarrow> (pyval \<times> pyval) list" where
  "raw_config issue_range_text =
     [(PStr ''target_repo'', PStr ''widgets''),
      (PStr ''expected_labels'', PDict [(PInt 1, PList [PStr ''bug''])]),
      (PStr ''issue_range'', PStr issue_range_text)]"

text \<open>An instance of the parameter of \<open>py_sorted\<close>; the examples never reach it.\<close>

definition no_sorted_other :: "pyval list \<Rightarrow> py_exception + pyval list" where
  "no_sorted_other xs = Inl TypeError"

section \<open>The comparison of label lists\<close>

lemma sort_eq_iff_mset: "(sort (xs :: string list) = sort ys) = (mset xs = mset ys)"
  by (metis mset_sort properties_for_sort sorted_sort)

lemma list_all_is_str_map [simp]: "list_all is_str (map PStr xs)"
  by (induction xs) auto

lemma str_of_PStr [simp]: "str_of \<circ> PStr = id"
  by (rule ext) simp

lemma map_PStr_eq_iff: "(map PStr xs = map PStr ys) = (xs = ys)"
  by (simp add: inj_map_eq_map inj_on_def)

lemma py_sorted_strings: "py_sorted sorted_other (map PStr xs) = Inr (map PStr (sort xs))"
  by (simp add: py_sorted_def)

text \<open>
  Claim C3. On two sequences of strings the comparison of the engine returns, without
  raising and without printing, whether the two sorted sequences are equal. That is the
  case exactly when the sequences have the same elements with the same multiplicities:
  the order is ignored, duplicates are not. So the expected labels a, b match the
  actual labels b, a, and the expected labels a, a do not match the actual label a.
\<close>

theorem compare_labels_sorted_equality:
  "compare_labels sorted_other (map PStr actual) expected =
     Inr (map PStr (sort actual), map PStr (sort expected), sort actual = sort expected)
   \<and> (sort actual = sort expected) = (mset actual = mset expected)
   \<and> compare_labels sorted_other (map PStr [''b'', ''a'']) [''a'', ''b''] =
       Inr (map PStr [''a'', ''b''], map PStr [''a'', ''b''], True)
   \<and> compare_labels sorted_other (map PStr [''a'']) [''a'', ''a''] =
       Inr (map PStr [''a''], map PStr [''a'', ''a''], False)"
proof -
  have general: "compare_labels sorted_other (map PStr a) e =
      Inr (map PStr (sort a), map PStr (sort e), sort a = sort e)" for a e
    by (simp add: compare_labels_def py_sorted_strings sort_labels_def map_PStr_eq_iff Let_def)
  have first: "compare_labels sorted_other (map PStr [''b'', ''a'']) [''a'', ''b''] =
      Inr (map PStr [''a'', ''b''], map PStr [''a'', ''b''], True)"
    unfolding general by simp
  have second: "compare_labels sorted_other (map PStr [''a'']) [''a'', ''a''] =
      Inr (map PStr [''a''], map PStr [''a'', ''a''], False)"
    unfolding general by simp
  from general first second sort_eq_iff_mset show ?thesis
    by blast
qed

section \<open>Classification\<close>

text \<open>
  Claim C5. An item number is given the keyword Issue exactly when it lies between the
  two bounds of the configuration, both included, and the keyword PR exactly when it
  does not. With the bounds 1 and 15, item 10 is an Issue and item 20 a PR.
\<close>

theorem item_type_by_range:
  "(item_type config n = issue_keyword) = (issue_min config \<le> n \<and> n \<le> issue_max config)
   \<and> (item_type config n = pr_keyword) = (\<not> (issue_min config \<le> n \<and> n \<le> issue_max config))
   \<and> item_type \<lparr>target_repo = r, expected_labels = e, issue_min = 1, issue_max = 15\<rparr> 10 = ''Issue''
   \<and> item_type \<lparr>target_repo = r, expected_labels = e, issue_min = 1, issue_max = 15\<rparr> 20 = ''PR''"
  by (simp add: item_type_def issue_keyword_def pr_keyword_def)

section \<open>The loop of the engine\<close>

lemma item_results_api_output:
  "item_results (snd (get_github_api get ep h org repo) @ rest) = item_results rest"
  by (simp add: get_github_api_def Let_def split: http_outcome.splits sum.splits)

lemma get_item_labels_output:
  "snd (get_item_labels get n h org repo) =
     snd (get_github_api get (''issues/'' @ str_int n) h org repo)"
  by (simp add: get_item_labels_def split: prod.splits sum.splits)

lemma item_results_fetch_output:
  "get_item_labels get n h org repo = (r, out) \<Longrightarrow> item_results (out @ rest) = item_results rest"
  by (metis get_item_labels_output item_results_api_output snd_conv)

text \<open>
  The loop from any value of \<^verbatim>\<open>all_passed\<close>: it ends without an exception exactly when
  every turn does, and then it has printed one outcome per entry, in order, and its
  result is the conjunction of the start value with the flags of the entries.
\<close>

lemma verify_items_spec:
  "verify_items so get cfg h org ap items = (res, out) \<Longrightarrow>
     (if list_all (item_completes so get cfg h org) items
      then res = Inr (ap \<and> list_all (item_passed so get cfg h org) items)
           \<and> item_results out = map (\<lambda>entry. (fst entry, item_passed so get cfg h org entry)) items
      else (\<exists>e. res = Inl e))"
proof (induction items arbitrary: ap res out)
  case Nil
  then show ?case by simp
next
  case (Cons entry items)
  obtain n e where entry: "entry = (n, e)" by (cases entry)
  obtain r o1 where fetch: "get_item_labels get n h org (target_repo cfg) = (r, o1)"
    by (cases "get_item_labels get n h org (target_repo cfg)")
  have pre: "item_results (o1 @ rest) = item_results rest" for rest
    by (rule item_results_fetch_output [OF fetch])
  show ?case
  proof (cases r)
    case (Inl x)
    have "\<not> item_completes so get cfg h org entry"
      using entry fetch Inl by (simp add: item_completes_def)
    with Cons.prems entry fetch Inl show ?thesis
      by (auto simp add: Let_def)
  next
    case (Inr lab)
    show ?thesis
    proof (cases lab)
      case None
      obtain res' out' where rest: "verify_items so get cfg h org False items = (res', out')"
        by (cases "verify_items so get cfg h org False items")
      have head: "item_completes so get cfg h org entry" "\<not> item_passed so get cfg h org entry"
        using entry fetch Inr None by (simp_all add: item_completes_def item_passed_def)
      from Cons.prems entry fetch Inr None rest
      have "res = res'" "out = Checking (item_type cfg n) n # o1 @ Fetch_failed (item_type cfg n) n # out'"
        by (simp_all add: Let_def)
      with Cons.IH [OF rest] head entry show ?thesis
        by (simp add: pre split: if_splits)
    next
      case (Some actual)
      show ?thesis
      proof (cases "compare_labels so actual e")
        case (Inl x)
        have "\<not> item_completes so get cfg h org entry"
          using entry fetch Inr Some Inl by (simp add: item_completes_def)
        with Cons.prems entry fetch Inr Some Inl show ?thesis
          by (auto simp add: Let_def)
      next
        case cmp: (Inr triple)
        obtain a_sorted e_sorted equal where triple: "triple = (a_sorted, e_sorted, equal)"
          by (cases triple)
        obtain res' out' where rest:
          "verify_items so get cfg h org (if equal then ap else False) items = (res', out')"
          by (cases "verify_items so get cfg h org (if equal then ap else False) items")
        have head: "item_completes so get cfg h org entry"
            "item_passed so get cfg h org entry = equal"
          using entry fetch Inr Some cmp triple
          by (simp_all add: item_completes_def item_passed_def)
        from Cons.prems entry fetch Inr Some cmp triple rest
        have "res = res'"
          "out = Checking (item_type cfg n) n # o1 @
             (if equal then Labels_match (item_type cfg n) n a_sorted
              else Labels_mismatch (item_type cfg n) n e_sorted a_sorted) # out'"
          by (simp_all add: Let_def split: if_splits)
        with Cons.IH [OF rest] head entry show ?thesis
          by (simp add: pre split: if_splits)
      qed
    qed
  qed
qed




lemma list_all_snd_map: "list_all snd (map (\<lambda>entry. (f entry, P entry)) xs) = list_all P xs"
  by (induction xs) auto

lemma item_results_final:
  "item_results (xs @ [if b then All_checks_passed else Some_checks_failed]) = item_results xs"
  by (induction xs rule: item_results.induct) simp_all

lemma run_verification_spec:
  assumes "list_all (item_completes so get cfg (get_github_headers tok) org) (expected_labels cfg)"
  shows "\<exists>out. run_verification so get cfg tok org =
            (Inr (list_all (item_passed so get cfg (get_github_headers tok) org) (expected_labels cfg)), out)
          \<and> item_results out =
              map (\<lambda>entry. (fst entry, item_passed so get cfg (get_github_headers tok) org entry))
                (expected_labels cfg)"
proof -
  obtain res out where run:
    "verify_items so get cfg (get_github_headers tok) org True (expected_labels cfg) = (res, out)"
    by (cases "verify_items so get cfg (get_github_headers tok) org True (expected_labels cfg)")
  from verify_items_spec [OF run] assms
  have res: "res = Inr (list_all (item_passed so get cfg (get_github_headers tok) org) (expected_labels cfg))"
    and out: "item_results out =
      map (\<lambda>entry. (fst entry, item_passed so get cfg (get_github_headers tok) org entry))
        (expected_labels cfg)"
    by simp_all
  show ?thesis
    using run res out by (simp add: run_verification_def Let_def item_results_final)
qed

text \<open>
  Claim C1. When no turn of the loop raises, \<^verbatim>\<open>run_verification\<close> returns, and the
  value it returns is the conjunction of the passed flags of all entries of
  \<^verbatim>\<open>expected_labels\<close>, which is also the conjunction of the outcomes it printed for
  them. With no entries the value is True.
\<close>

theorem overall_result_is_conjunction:
  assumes "list_all (item_completes so get cfg (get_github_headers tok) org) (expected_labels cfg)"
  shows "(\<exists>out. run_verification so get cfg tok org = (Inr (list_all snd (item_results out)), out)
            \<and> list_all snd (item_results out) =
                list_all (item_passed so get cfg (get_github_headers tok) org) (expected_labels cfg))
         \<and> fst (run_verification so get (cfg\<lparr>expected_labels := []\<rparr>) tok org) = Inr True"
proof -
  from run_verification_spec [OF assms] obtain out where
    "run_verification so get cfg tok org =
       (Inr (list_all (item_passed so get cfg (get_github_headers tok) org) (expected_labels cfg)), out)"
    "item_results out =
       map (\<lambda>entry. (fst entry, item_passed so get cfg (get_github_headers tok) org entry))
         (expected_labels cfg)"
    by blast
  then have "run_verification so get cfg tok org = (Inr (list_all snd (item_results out)), out)
      \<and> list_all snd (item_results out) =
          list_all (item_passed so get cfg (get_github_headers tok) org) (expected_labels cfg)"
    by (simp add: list_all_snd_map)
  moreover have "fst (run_verification so get (cfg\<lparr>expected_labels := []\<rparr>) tok org) = Inr True"
    by (simp add: run_verification_def Let_def)
  ultimately show ?thesis by blast
qed

theorem overall_result_is_conjunction_witness:
  "list_all (item_completes no_sorted_other example_get example_config (get_github_headers ''t'') ''acme'')
     (expected_labels example_config)
   \<and> (\<exists>out. run_verification no_sorted_other example_get example_config ''t'' ''acme'' =
         (Inr (list_all snd (item_results out)), out))
   \<and> fst (run_verification no_sorted_other example_get example_config ''t'' ''acme'') = Inr False"
proof -
  have h: "list_all (item_completes no_sorted_other example_get example_config (get_github_headers ''t'') ''acme'')
     (expected_labels example_config)"
    by code_simp
  have r: "fst (run_verification no_sorted_other example_get example_config ''t'' ''acme'') = Inr False"
    by code_simp
  from overall_result_is_conjunction [OF h] h r show ?thesis by blast
qed

text \<open>
  When no turn of the loop raises, one run prints exactly one outcome for each entry of
  \<^verbatim>\<open>expected_labels\<close>, none left out and none twice, in the order of the entries.
\<close>

lemma completed_run_one_result_per_entry:
  assumes "list_all (item_completes so get cfg (get_github_headers tok) org) (expected_labels cfg)"
  shows "\<exists>b out. run_verification so get cfg tok org = (Inr b, out)
           \<and> map fst (item_results out) = map fst (expected_labels cfg)
           \<and> length (item_results out) = length (expected_labels cfg)
           \<and> item_results out =
               map (\<lambda>entry. (fst entry, item_passed so get cfg (get_github_headers tok) org entry))
                 (expected_labels cfg)"
proof -
  from run_verification_spec [OF assms] obtain out where
    run: "run_verification so get cfg tok org =
       (Inr (list_all (item_passed so get cfg (get_github_headers tok) org) (expected_labels cfg)), out)"
    and out: "item_results out =
       map (\<lambda>entry. (fst entry, item_passed so get cfg (get_github_headers tok) org entry))
         (expected_labels cfg)"
    by blast
  from out have "map fst (item_results out) = map fst (expected_labels cfg)"
    "length (item_results out) = length (expected_labels cfg)"
    by (simp_all add: comp_def)
  with run out show ?thesis by blast
qed

text \<open>
  Claim C8 at an input where it fails. The configuration has the entries 1, 6 and 2, in
  this order, and item 6 of the example remote answers 200 with a label that has no
  name. The run prints the outcome of item 1, raises KeyError in the turn of item 6 and
  ends there: the entries 6 and 2 get no outcome, where the claim has one outcome for
  each entry of every configuration.
\<close>

theorem raising_fetch_skips_entries:
  "map fst (expected_labels
      (example_config\<lparr>expected_labels := [(1, [''bug'']), (6, [''bug'']), (2, [''enhancement''])]\<rparr>)) =
     [1, 6, 2]
   \<and> run_verification no_sorted_other example_get
        (example_config\<lparr>expected_labels := [(1, [''bug'']), (6, [''bug'']), (2, [''enhancement''])]\<rparr>)
        ''t'' ''acme'' =
      (Inl KeyError,
       [Verification_start ''acme'' ''widgets'' 1 2,
        Checking ''Issue'' 1, Labels_match ''Issue'' 1 [PStr ''bug''],
        Checking ''PR'' 6])
   \<and> item_results (snd (run_verification no_sorted_other example_get
        (example_config\<lparr>expected_labels := [(1, [''bug'']), (6, [''bug'']), (2, [''enhancement''])]\<rparr>)
        ''t'' ''acme'')) = [(1, True)]"
  by code_simp

theorem raising_fetch_skips_entries_witness:
  "fst (run_verification no_sorted_other example_get
        (example_config\<lparr>expected_labels := [(1, [''bug'']), (6, [''bug'']), (2, [''enhancement''])]\<rparr>)
        ''t'' ''acme'') = Inl KeyError
   \<and> length (item_results (snd (run_verification no_sorted_other example_get
        (example_config\<lparr>expected_labels := [(1, [''bug'']), (6, [''bug'']), (2, [''enhancement''])]\<rparr>)
        ''t'' ''acme''))) = 1"
  using raising_fetch_skips_entries by simp

section \<open>A failed fetch\<close>





section \<open>The fetch of the labels of an item\<close>


lemma get_github_api_item:
  "get_github_api get (''issues/'' @ str_int n) h org repo =
     (case get (item_url org repo n) h of
        Request_raises msg \<Rightarrow> ((False, PNone), [Request_exception (''issues/'' @ str_int n) msg])
      | Response r \<Rightarrow>
          if status_code r = 200 then
            (case json r of
               Inr v \<Rightarrow> ((True, v), [])
             | Inl msg \<Rightarrow> ((False, PNone), [Request_exception (''issues/'' @ str_int n) msg]))
          else if status_code r = 404 then ((False, PNone), [])
          else ((False, PNone),
                [Api_error (''issues/'' @ str_int n) (status_code r) (take 100 (text_body r))]))"
  unfolding get_github_api_def item_url_def success_status_code_def not_found_status_code_def
    response_truncate_length_def Let_def
  by (rule refl)

lemma sort_eq_Nil_iff: "(sort (xs :: string list) = []) = (xs = [])"
  by (metis length_sort length_0_conv)

lemma get_item_labels_not_found:
  "get (item_url org repo n) h = Response r \<Longrightarrow> status_code r = 404 \<Longrightarrow>
     get_item_labels get n h org repo = (Inr None, [])"
  unfolding get_item_labels_def get_github_api_item by simp

lemma get_item_labels_falsy:
  "get (item_url org repo n) h = Response r \<Longrightarrow> status_code r = 200 \<Longrightarrow> json r = Inr body \<Longrightarrow>
     \<not> truthy body \<Longrightarrow> get_item_labels get n h org repo = (Inr None, [])"
  unfolding get_item_labels_def get_github_api_item by simp

lemma verify_items_fetch_none:
  "get_item_labels get n h org (target_repo cfg) = (Inr None, out_n) \<Longrightarrow>
   verify_items so get cfg h org ap ((n, e) # rest) =
     (fst (verify_items so get cfg h org False rest),
      Checking (item_type cfg n) n # out_n @ Fetch_failed (item_type cfg n) n
        # snd (verify_items so get cfg h org False rest))"
  by (simp add: Let_def split: prod.splits)

text \<open>
  Claim C9. When the endpoint answers 200 and the parsed body is falsy (None, False, 0,
  an empty string, list or object), the fetch returns None and prints nothing, exactly
  as it does on a 404 answer; the loop then prints the failure of the item, sets
  \<^verbatim>\<open>all_passed\<close> to False and goes on, and the item does not pass.
\<close>

theorem falsy_body_is_a_failed_fetch:
  assumes "get (item_url org (target_repo cfg) n) h = Response r"
    and "status_code r = 200" and "json r = Inr body" and "\<not> truthy body"
    and "get' (item_url org (target_repo cfg) n) h = Response r'" and "status_code r' = 404"
  shows "get_item_labels get n h org (target_repo cfg) = (Inr None, [])
       \<and> get_item_labels get n h org (target_repo cfg) = get_item_labels get' n h org (target_repo cfg)
       \<and> verify_items so get cfg h org ap ((n, e) # rest) =
           (fst (verify_items so get cfg h org False rest),
            Checking (item_type cfg n) n # Fetch_failed (item_type cfg n) n
              # snd (verify_items so get cfg h org False rest))
       \<and> \<not> item_passed so get cfg h org (n, e)"
proof -
  have a: "get_item_labels get n h org (target_repo cfg) = (Inr None, [])"
    using assms(1-4) by (rule get_item_labels_falsy)
  have b: "get_item_labels get' n h org (target_repo cfg) = (Inr None, [])"
    using assms(5,6) by (rule get_item_labels_not_found)
  have c: "\<not> item_passed so get cfg h org (n, e)"
    by (simp add: item_passed_def a)
  from a b c verify_items_fetch_none [OF a, of so ap e rest] show ?thesis
    by simp
qed

theorem falsy_body_is_a_failed_fetch_witness:
  "get_item_labels example_get 4 [] ''acme'' (target_repo example_config) = (Inr None, [])
   \<and> get_item_labels example_get 4 [] ''acme'' (target_repo example_config) =
       get_item_labels not_found_get 4 [] ''acme'' (target_repo example_config)
   \<and> \<not> item_passed no_sorted_other example_get example_config [] ''acme'' (4, [])"
proof -
  have a: "example_get (item_url ''acme'' (target_repo example_config) 4) [] =
      Response \<lparr>status_code = 200, text_body = code_points ''{}'', json = Inr (PDict [])\<rparr>"
    by code_simp
  have b: "not_found_get (item_url ''acme'' (target_repo example_config) 4) [] =
      Response \<lparr>status_code = 404, text_body = code_points ''Not Found'', json = Inl ''no JSON''\<rparr>"
    by (simp add: not_found_get_def)
  have c: "status_code \<lparr>status_code = 200, text_body = code_points ''{}'', json = Inr (PDict [])\<rparr> = 200"
    "json \<lparr>status_code = 200, text_body = code_points ''{}'', json = Inr (PDict [])\<rparr> = Inr (PDict [])"
    "\<not> truthy (PDict [])"
    "status_code \<lparr>status_code = 404, text_body = code_points ''Not Found'', json = Inl ''no JSON''\<rparr> = 404"
    by simp_all
  from falsy_body_is_a_failed_fetch [where get = example_get and get' = not_found_get
      and org = "''acme''" and cfg = example_config and n = 4 and h = "[]"
      and so = no_sorted_other and ap = True and e = "[]" and rest = "[]",
      OF a c(1) c(2) c(3) b c(4)]
  show ?thesis by blast
qed

text \<open>
  Claim C10. When the endpoint answers 200 with a non-empty JSON object that has no
  labels key, the fetch returns the empty list and prints nothing; the item then passes
  exactly when its expected labels are the empty sequence: the loop prints the match
  and keeps \<^verbatim>\<open>all_passed\<close> in that case, and prints the mismatch and sets it to False
  otherwise.
\<close>

theorem missing_labels_key_is_empty_list:
  assumes "get (item_url org (target_repo cfg) n) h = Response r"
    and "status_code r = 200" and "json r = Inr (PDict d)" and "d \<noteq> []"
    and "dict_lookup d ''labels'' = None"
  shows "get_item_labels get n h org (target_repo cfg) = (Inr (Some []), [])
       \<and> item_passed so get cfg h org (n, e) = (e = [])
       \<and> verify_items so get cfg h org ap ((n, e) # rest) =
           (if e = [] then
              (fst (verify_items so get cfg h org ap rest),
               Checking (item_type cfg n) n # Labels_match (item_type cfg n) n []
                 # snd (verify_items so get cfg h org ap rest))
            else
              (fst (verify_items so get cfg h org False rest),
               Checking (item_type cfg n) n
                 # Labels_mismatch (item_type cfg n) n (map PStr (sort e)) []
                 # snd (verify_items so get cfg h org False rest)))"
proof -
  have a: "get_item_labels get n h org (target_repo cfg) = (Inr (Some []), [])"
    using assms unfolding get_item_labels_def get_github_api_item by simp
  have cmp: "compare_labels so [] e = Inr ([], map PStr (sort e), e = [])"
    by (auto simp add: compare_labels_def py_sorted_def sort_labels_def Let_def sort_eq_Nil_iff)
  have b: "item_passed so get cfg h org (n, e) = (e = [])"
    by (simp add: item_passed_def a cmp)
  have c: "verify_items so get cfg h org ap ((n, e) # rest) =
           (if e = [] then
              (fst (verify_items so get cfg h org ap rest),
               Checking (item_type cfg n) n # Labels_match (item_type cfg n) n []
                 # snd (verify_items so get cfg h org ap rest))
            else
              (fst (verify_items so get cfg h org False rest),
               Checking (item_type cfg n) n
                 # Labels_mismatch (item_type cfg n) n (map PStr (sort e)) []
                 # snd (verify_items so get cfg h org False rest)))"
    by (simp add: a cmp Let_def split: prod.splits)
  from a b c show ?thesis by blast
qed

theorem missing_labels_key_is_empty_list_witness:
  "get_item_labels example_get 5 [] ''acme'' (target_repo example_config) = (Inr (Some []), [])
   \<and> item_passed no_sorted_other example_get example_config [] ''acme'' (5, [])
   \<and> \<not> item_passed no_sorted_other example_get example_config [] ''acme'' (5, [''bug''])"
proof -
  have a: "example_get (item_url ''acme'' (target_repo example_config) 5) [] =
      Response \<lparr>status_code = 200, text_body = [], json = Inr (PDict [(PStr ''id'', PInt 5)])\<rparr>"
    by code_simp
  have l: "dict_lookup [(PStr ''id'', PInt 5)] ''labels'' = None"
    by (simp add: dict_lookup_def)
  have c: "status_code \<lparr>status_code = 200, text_body = [],
        json = Inr (PDict [(PStr ''id'', PInt 5)])\<rparr> = 200"
    "json \<lparr>status_code = 200, text_body = [], json = Inr (PDict [(PStr ''id'', PInt 5)])\<rparr> =
       Inr (PDict [(PStr ''id'', PInt 5)])"
    "[(PStr ''id'', PInt 5)] \<noteq> []"
    by simp_all
  from missing_labels_key_is_empty_list [where get = example_get
      and org = "''acme''" and cfg = example_config and n = 5 and h = "[]"
      and so = no_sorted_other and ap = True and e = "[]" and rest = "[]",
      OF a c(1) c(2) c(3) l]
    missing_labels_key_is_empty_list [where get = example_get
      and org = "''acme''" and cfg = example_config and n = 5 and h = "[]"
      and so = no_sorted_other and ap = True and e = "[''bug'']" and rest = "[]",
      OF a c(1) c(2) c(3) l]
  show ?thesis by (simp del: verify_items.simps)
qed


lemma label_names_objects:
  "list_all2 (\<lambda>label v. \<exists>d. label = PDict d \<and> dict_lookup d ''name'' = Some v) ls names \<Longrightarrow>
     label_names ls = Inr names"
  by (induction ls names rule: list_all2_induct) auto

text \<open>
  Claim C4, as the code has it. The fetch of an item returns None when the request
  raises, when the status is 404, when it is any other status than 200, and when the
  body of a 200 answer is not JSON: the same value each time. What differs is the
  output: nothing is printed for 404, the status and the first 100 characters (code
  points) of the body for another status, and the message of the exception when the
  request or the decoding raises. On a 200 answer whose body is an object with a list of labels, each
  an object with a name, the fetch returns the names in order and prints nothing.
\<close>

theorem fetch_outcomes:
  "(get (item_url org repo n) h = Request_raises msg \<longrightarrow>
      get_item_labels get n h org repo = (Inr None, [Request_exception (''issues/'' @ str_int n) msg]))
   \<and> (get (item_url org repo n) h = Response r \<and> status_code r = 404 \<longrightarrow>
      get_item_labels get n h org repo = (Inr None, []))
   \<and> (get (item_url org repo n) h = Response r \<and> status_code r \<noteq> 200 \<and> status_code r \<noteq> 404 \<longrightarrow>
      get_item_labels get n h org repo =
        (Inr None, [Api_error (''issues/'' @ str_int n) (status_code r) (take 100 (text_body r))]))
   \<and> (get (item_url org repo n) h = Response r \<and> status_code r = 200 \<and> json r = Inl msg \<longrightarrow>
      get_item_labels get n h org repo = (Inr None, [Request_exception (''issues/'' @ str_int n) msg]))
   \<and> (get (item_url org repo n) h = Response r \<and> status_code r = 200 \<and> json r = Inr (PDict d)
        \<and> dict_lookup d ''labels'' = Some (PList ls)
        \<and> list_all2 (\<lambda>label v. \<exists>d'. label = PDict d' \<and> dict_lookup d' ''name'' = Some v) ls names \<longrightarrow>
      get_item_labels get n h org repo = (Inr (Some names), []))"
proof -
  have found: "get_item_labels get n h org repo = (Inr (Some names), [])"
    if "get (item_url org repo n) h = Response r" "status_code r = 200" "json r = Inr (PDict d)"
      "dict_lookup d ''labels'' = Some (PList ls)"
      "list_all2 (\<lambda>label v. \<exists>d'. label = PDict d' \<and> dict_lookup d' ''name'' = Some v) ls names"
  proof -
    from that(4) have "d \<noteq> []" by (auto simp add: dict_lookup_def)
    with that(1-4) label_names_objects [OF that(5)] show ?thesis
      unfolding get_item_labels_def get_github_api_item by simp
  qed
  have rest: "get (item_url org repo n) h = Request_raises msg \<longrightarrow>
      get_item_labels get n h org repo = (Inr None, [Request_exception (''issues/'' @ str_int n) msg])"
    "get (item_url org repo n) h = Response r \<and> status_code r = 404 \<longrightarrow>
      get_item_labels get n h org repo = (Inr None, [])"
    "get (item_url org repo n) h = Response r \<and> status_code r \<noteq> 200 \<and> status_code r \<noteq> 404 \<longrightarrow>
      get_item_labels get n h org repo =
        (Inr None, [Api_error (''issues/'' @ str_int n) (status_code r) (take 100 (text_body r))])"
    "get (item_url org repo n) h = Response r \<and> status_code r = 200 \<and> json r = Inl msg \<longrightarrow>
      get_item_labels get n h org repo = (Inr None, [Request_exception (''issues/'' @ str_int n) msg])"
    unfolding get_item_labels_def get_github_api_item by simp_all
  from found rest show ?thesis by blast
qed

theorem fetch_outcomes_witness:
  "get_item_labels example_get 8 [] ''acme'' ''widgets'' =
     (Inr None, [Request_exception ''issues/8'' ''connection refused''])
   \<and> get_item_labels example_get 3 [] ''acme'' ''widgets'' = (Inr None, [])
   \<and> get_item_labels example_get 7 [] ''acme'' ''widgets'' =
     (Inr None, [Api_error ''issues/7'' 500 (code_points ''Server Error'')])
   \<and> get_item_labels html_get 1 [] ''acme'' ''widgets'' =
     (Inr None, [Request_exception ''issues/1'' ''Expecting value''])
   \<and> get_item_labels example_get 1 [] ''acme'' ''widgets'' = (Inr (Some [PStr ''bug'']), [])
   \<and> get_item_labels busy_get 1 [] ''acme'' ''widgets'' =
     (Inr None, [Api_error ''issues/1'' 503 (replicate 100 233)])"
proof -
  have s: "str_int 8 = ''8''" "str_int 7 = ''7''" "str_int 1 = ''1''"
    by code_simp+
  have g8: "example_get (item_url ''acme'' ''widgets'' 8) [] = Request_raises ''connection refused''"
    by code_simp
  have g3: "example_get (item_url ''acme'' ''widgets'' 3) [] =
      Response \<lparr>status_code = 404, text_body = code_points ''Not Found'', json = Inl ''no JSON''\<rparr>"
    by code_simp
  have g7: "example_get (item_url ''acme'' ''widgets'' 7) [] =
      Response \<lparr>status_code = 500, text_body = code_points ''Server Error'', json = Inl ''no JSON''\<rparr>"
    by code_simp
  have gh: "html_get (item_url ''acme'' ''widgets'' 1) [] =
      Response \<lparr>status_code = 200, text_body = code_points ''<html>'', json = Inl ''Expecting value''\<rparr>"
    by (simp add: html_get_def)
  have g1: "example_get (item_url ''acme'' ''widgets'' 1) [] =
      Response \<lparr>status_code = 200, text_body = [],
        json = Inr (PDict [(PStr ''labels'', PList [PDict [(PStr ''name'', PStr ''bug'')]])])\<rparr>"
    by code_simp
  have l1: "dict_lookup [(PStr ''labels'', PList [PDict [(PStr ''name'', PStr ''bug'')]])] ''labels'' =
      Some (PList [PDict [(PStr ''name'', PStr ''bug'')]])"
    by (simp add: dict_lookup_def)
  have n1: "list_all2 (\<lambda>label v. \<exists>d'. label = PDict d' \<and> dict_lookup d' ''name'' = Some v)
      [PDict [(PStr ''name'', PStr ''bug'')]] [PStr ''bug'']"
    by (simp add: dict_lookup_def)
  have a: "get_item_labels example_get 8 [] ''acme'' ''widgets'' =
     (Inr None, [Request_exception ''issues/8'' ''connection refused''])"
    using fetch_outcomes [where get = example_get and org = "''acme''" and repo = "''widgets''"
        and n = 8 and h = "[]" and msg = "''connection refused''"] g8
    by (simp add: s)
  have b: "get_item_labels example_get 3 [] ''acme'' ''widgets'' = (Inr None, [])"
    using fetch_outcomes [where get = example_get and org = "''acme''" and repo = "''widgets''"
        and n = 3 and h = "[]"
        and r = "\<lparr>status_code = 404, text_body = code_points ''Not Found'', json = Inl ''no JSON''\<rparr>"] g3
    by simp
  have c: "get_item_labels example_get 7 [] ''acme'' ''widgets'' =
     (Inr None, [Api_error ''issues/7'' 500 (code_points ''Server Error'')])"
    using fetch_outcomes [where get = example_get and org = "''acme''" and repo = "''widgets''"
        and n = 7 and h = "[]"
        and r = "\<lparr>status_code = 500, text_body = code_points ''Server Error'', json = Inl ''no JSON''\<rparr>"] g7
    by (simp add: s code_points_def)
  have d: "get_item_labels html_get 1 [] ''acme'' ''widgets'' =
     (Inr None, [Request_exception ''issues/1'' ''Expecting value''])"
    using fetch_outcomes [where get = html_get and org = "''acme''" and repo = "''widgets''"
        and n = 1 and h = "[]" and msg = "''Expecting value''"
        and r = "\<lparr>status_code = 200, text_body = code_points ''<html>'', json = Inl ''Expecting value''\<rparr>"] gh
    by (simp add: s)
  have e: "get_item_labels example_get 1 [] ''acme'' ''widgets'' = (Inr (Some [PStr ''bug'']), [])"
    using fetch_outcomes [where get = example_get and org = "''acme''" and repo = "''widgets''"
        and n = 1 and h = "[]" and names = "[PStr ''bug'']"
        and ls = "[PDict [(PStr ''name'', PStr ''bug'')]]"
        and d = "[(PStr ''labels'', PList [PDict [(PStr ''name'', PStr ''bug'')]])]"
        and r = "\<lparr>status_code = 200, text_body = [],
          json = Inr (PDict [(PStr ''labels'', PList [PDict [(PStr ''name'', PStr ''bug'')]])])\<rparr>"]
      g1 l1 n1
    by simp
  have gb: "busy_get (item_url ''acme'' ''widgets'' 1) [] =
      Response \<lparr>status_code = 503, text_body = replicate 150 233, json = Inl ''no JSON''\<rparr>"
    by (simp add: busy_get_def)
  have f: "get_item_labels busy_get 1 [] ''acme'' ''widgets'' =
     (Inr None, [Api_error ''issues/1'' 503 (replicate 100 233)])"
    using fetch_outcomes [where get = busy_get and org = "''acme''" and repo = "''widgets''"
        and n = 1 and h = "[]"
        and r = "\<lparr>status_code = 503, text_body = replicate 150 233, json = Inl ''no JSON''\<rparr>"] gb
    by (simp add: s)
  from a b c d e f show ?thesis by blast
qed

text \<open>
  The claim as it is written asks for not-found and error to be distinct values for
  the caller. Item 3 of the example remote answers 404, item 7 answers 500 and the
  request for item 8 raises; the three calls return the same pair, and the three
  fetches the same None.
\<close>

theorem not_found_and_error_return_the_same:
  "example_get (item_url ''acme'' ''widgets'' 3) [] =
     Response \<lparr>status_code = 404, text_body = code_points ''Not Found'', json = Inl ''no JSON''\<rparr>
   \<and> example_get (item_url ''acme'' ''widgets'' 7) [] =
     Response \<lparr>status_code = 500, text_body = code_points ''Server Error'', json = Inl ''no JSON''\<rparr>
   \<and> example_get (item_url ''acme'' ''widgets'' 8) [] = Request_raises ''connection refused''
   \<and> fst (get_github_api example_get ''issues/3'' [] ''acme'' ''widgets'') = (False, PNone)
   \<and> fst (get_github_api example_get ''issues/7'' [] ''acme'' ''widgets'') = (False, PNone)
   \<and> fst (get_github_api example_get ''issues/8'' [] ''acme'' ''widgets'') = (False, PNone)
   \<and> fst (get_item_labels example_get 3 [] ''acme'' ''widgets'') = Inr None
   \<and> fst (get_item_labels example_get 7 [] ''acme'' ''widgets'') = Inr None
   \<and> fst (get_item_labels example_get 8 [] ''acme'' ''widgets'') = Inr None"
  by code_simp

text \<open>
  Claim C6 at an input where it fails. Item 6 of the example remote answers 200 with a
  label object that has no name. The subscript raises KeyError, nothing catches it in
  \<^verbatim>\<open>_get_item_labels\<close> or in \<^verbatim>\<open>run_verification\<close>, and the run ends there: item 1,
  configured after it, is never checked.
\<close>

theorem label_without_name_raises:
  "example_get (item_url ''acme'' ''widgets'' 6) (get_github_headers ''t'') =
     Response \<lparr>status_code = 200, text_body = [],
       json = Inr (PDict [(PStr ''labels'', PList [PDict [(PStr ''id'', PInt 1)]])])\<rparr>
   \<and> get_item_labels example_get 6 (get_github_headers ''t'') ''acme'' ''widgets'' = (Inl KeyError, [])
   \<and> run_verification no_sorted_other example_get
        (example_config\<lparr>expected_labels := [(6, [''bug'']), (1, [''bug''])]\<rparr>) ''t'' ''acme'' =
      (Inl KeyError, [Verification_start ''acme'' ''widgets'' 1 2, Checking ''PR'' 6])"
  by code_simp

theorem label_without_name_raises_witness:
  "fst (get_item_labels example_get 6 (get_github_headers ''t'') ''acme'' ''widgets'') = Inl KeyError
   \<and> fst (run_verification no_sorted_other example_get
        (example_config\<lparr>expected_labels := [(6, [''bug'']), (1, [''bug''])]\<rparr>) ''t'' ''acme'') =
      Inl KeyError"
  using label_without_name_raises by simp

section \<open>Failure of the configuration loading\<close>


lemma split_on_nonempty [simp]: "split_on c s \<noteq> []"
  by (induction s) (simp_all split: list.splits)

lemma split_on_one: "(split_on c s = [a]) = (s = a \<and> c \<notin> set a)"
proof (induction s arbitrary: a)
  case Nil
  show ?case by auto
next
  case (Cons x s)
  show ?case
  proof (cases "x = c")
    case True
    then show ?thesis by auto
  next
    case False
    obtain p ps where sp: "split_on c s = p # ps"
      by (cases "split_on c s") simp_all
    show ?thesis
    proof (cases a)
      case Nil
      with False sp show ?thesis by simp
    next
      case (Cons y a')
      with False sp Cons.IH [of a'] show ?thesis by auto
    qed
  qed
qed

lemma split_on_two: "(split_on c s = [a, b]) = (s = a @ c # b \<and> c \<notin> set a \<and> c \<notin> set b)"
proof (induction s arbitrary: a)
  case Nil
  show ?case by simp
next
  case (Cons x s)
  show ?case
  proof (cases "x = c")
    case True
    show ?thesis
    proof (cases a)
      case Nil
      with True show ?thesis by (simp add: split_on_one)
    next
      case (Cons y a')
      with True show ?thesis by auto
    qed
  next
    case False
    obtain p ps where sp: "split_on c s = p # ps"
      by (cases "split_on c s") simp_all
    show ?thesis
    proof (cases a)
      case Nil
      with False sp show ?thesis by simp
    next
      case (Cons y a')
      with False sp Cons.IH [of a'] show ?thesis by auto
    qed
  qed
qed

lemma check_fields_dict:
  "check_fields (PDict d) required_fields = None \<longleftrightarrow>
     PStr ''target_repo'' \<in> fst ` set d \<and> PStr ''expected_labels'' \<in> fst ` set d
       \<and> PStr ''issue_range'' \<in> fst ` set d"
  by (simp add: required_fields_def split: bool.splits)

lemma dict_lookup_present:
  "PStr k \<in> fst ` set d \<Longrightarrow> \<exists>v. dict_lookup d k = Some v"
  by (metis dict_lookup_def map_of_eq_None_iff not_Some_eq)

lemma unpack_two_ints_Some:
  "(unpack_two_ints py_int parts = Some (lo, hi)) =
     (\<exists>a b. parts = [a, b] \<and> py_int a = Some lo \<and> py_int b = Some hi)"
  by (induction py_int parts rule: unpack_two_ints.induct) (auto split: option.splits)

lemma unpack_two_ints_None:
  "(unpack_two_ints py_int parts = None) =
     (\<not> (\<exists>a b. parts = [a, b] \<and> py_int a \<noteq> None \<and> py_int b \<noteq> None))"
  by (induction py_int parts rule: unpack_two_ints.induct) (auto split: option.splits)

lemma load_accepts:
  assumes "PStr ''target_repo'' \<in> fst ` set d" "PStr ''expected_labels'' \<in> fst ` set d"
    and "dict_lookup d ''issue_range'' = Some (PStr (a @ ''-'' @ b))"
    and "CHR ''-'' \<notin> set a" "CHR ''-'' \<notin> set b"
    and "py_int a = Some lo" "py_int b = Some hi"
  shows "load_project_config py_int (Loaded (PDict d)) =
           Inr (dict_set (dict_set d ''issue_min'' (PInt lo)) ''issue_max'' (PInt hi))"
proof -
  have "PStr ''issue_range'' \<in> fst ` set d"
    using assms(3) by (metis dict_lookup_def map_of_eq_None_iff option.distinct(1))
  with assms(1,2) have fields: "check_fields (PDict d) required_fields = None"
    by (simp add: check_fields_dict)
  have "split_on CHR ''-'' (a @ ''-'' @ b) = [a, b]"
    using assms(4,5) by (simp add: split_on_two)
  then have "unpack_two_ints py_int (split_on CHR ''-'' (a @ ''-'' @ b)) = Some (lo, hi)"
    using assms(6,7) by (simp add: unpack_two_ints_Some)
  with fields assms(3) show ?thesis
    by (simp add: load_project_config_def)
qed

lemma load_fails_iff:
  "(\<exists>err. load_project_config py_int (Loaded (PDict d)) = Inl err) =
     (PStr ''target_repo'' \<notin> fst ` set d \<or> PStr ''expected_labels'' \<notin> fst ` set d
      \<or> PStr ''issue_range'' \<notin> fst ` set d
      \<or> \<not> (\<exists>a b. dict_lookup d ''issue_range'' = Some (PStr (a @ ''-'' @ b))
               \<and> CHR ''-'' \<notin> set a \<and> CHR ''-'' \<notin> set b
               \<and> py_int a \<noteq> None \<and> py_int b \<noteq> None))"
proof (cases "check_fields (PDict d) required_fields")
  case (Some err)
  then have "load_project_config py_int (Loaded (PDict d)) = Inl err"
    by (simp add: load_project_config_def)
  moreover from Some have "\<not> (PStr ''target_repo'' \<in> fst ` set d \<and> PStr ''expected_labels'' \<in> fst ` set d
       \<and> PStr ''issue_range'' \<in> fst ` set d)"
    using check_fields_dict [of d] by simp
  ultimately show ?thesis by auto
next
  case None
  then have present: "PStr ''target_repo'' \<in> fst ` set d" "PStr ''expected_labels'' \<in> fst ` set d"
      "PStr ''issue_range'' \<in> fst ` set d"
    using check_fields_dict [of d] by simp_all
  then obtain v where v: "dict_lookup d ''issue_range'' = Some v"
    using dict_lookup_present by blast
  show ?thesis
  proof (cases "\<exists>s. v = PStr s")
    case False
    with None v have "load_project_config py_int (Loaded (PDict d)) = Inl Load_failed"
      by (cases v) (simp_all add: load_project_config_def)
    with False v present show ?thesis by auto
  next
    case True
    then obtain s where s: "v = PStr s" by blast
    show ?thesis
    proof (cases "unpack_two_ints py_int (split_on CHR ''-'' s)")
      case no: None
      with None v s have "load_project_config py_int (Loaded (PDict d)) = Inl Bad_issue_range"
        by (simp add: load_project_config_def)
      moreover from no have "\<not> (\<exists>a b. s = a @ ''-'' @ b \<and> CHR ''-'' \<notin> set a \<and> CHR ''-'' \<notin> set b
            \<and> py_int a \<noteq> None \<and> py_int b \<noteq> None)"
        by (auto simp add: unpack_two_ints_None split_on_two)
      ultimately show ?thesis using v s by auto
    next
      case (Some pair)
      obtain lo hi where pair: "pair = (lo, hi)" by (cases pair)
      from Some pair obtain a b where ab: "split_on CHR ''-'' s = [a, b]"
          "py_int a = Some lo" "py_int b = Some hi"
        by (auto simp add: unpack_two_ints_Some)
      then have shape: "s = a @ ''-'' @ b" "CHR ''-'' \<notin> set a" "CHR ''-'' \<notin> set b"
        by (simp_all add: split_on_two)
      from None v s Some pair have "load_project_config py_int (Loaded (PDict d)) =
          Inr (dict_set (dict_set d ''issue_min'' (PInt lo)) ''issue_max'' (PInt hi))"
        by (simp add: load_project_config_def)
      with present v s shape ab show ?thesis by auto
    qed
  qed
qed

text \<open>
  Claim C7, as the code has it. For a configuration that is a mapping, loading fails
  exactly when one of the three required fields is absent or the value of
  \<^verbatim>\<open>issue_range\<close> is not a string made of two pieces without a hyphen, joined by one
  hyphen, that \<^verbatim>\<open>int\<close> both accepts. When it is such a string the configuration is
  returned with the two integers stored as \<^verbatim>\<open>issue_min\<close> and \<^verbatim>\<open>issue_max\<close>,
  whatever their order.
\<close>

theorem config_loading_fails_iff:
  "((\<exists>err. load_project_config py_int (Loaded (PDict d)) = Inl err) =
     (PStr ''target_repo'' \<notin> fst ` set d \<or> PStr ''expected_labels'' \<notin> fst ` set d
      \<or> PStr ''issue_range'' \<notin> fst ` set d
      \<or> \<not> (\<exists>a b. dict_lookup d ''issue_range'' = Some (PStr (a @ ''-'' @ b))
               \<and> CHR ''-'' \<notin> set a \<and> CHR ''-'' \<notin> set b
               \<and> py_int a \<noteq> None \<and> py_int b \<noteq> None)))
   \<and> (PStr ''target_repo'' \<in> fst ` set d \<and> PStr ''expected_labels'' \<in> fst ` set d
        \<and> dict_lookup d ''issue_range'' = Some (PStr (a @ ''-'' @ b))
        \<and> CHR ''-'' \<notin> set a \<and> CHR ''-'' \<notin> set b
        \<and> py_int a = Some lo \<and> py_int b = Some hi \<longrightarrow>
      load_project_config py_int (Loaded (PDict d)) =
        Inr (dict_set (dict_set d ''issue_min'' (PInt lo)) ''issue_max'' (PInt hi)))"
  using load_fails_iff [of py_int d] load_accepts [of d a b py_int lo hi]
  by blast

theorem config_loading_fails_iff_witness:
  "load_project_config plain_int (Loaded (PDict (raw_config ''15-1''))) =
     Inr (raw_config ''15-1'' @ [(PStr ''issue_min'', PInt 15), (PStr ''issue_max'', PInt 1)])
   \<and> \<not> (\<exists>err. load_project_config plain_int (Loaded (PDict (raw_config ''15-1''))) = Inl err)"
proof -
  have h: "PStr ''target_repo'' \<in> fst ` set (raw_config ''15-1'')"
    "PStr ''expected_labels'' \<in> fst ` set (raw_config ''15-1'')"
    "dict_lookup (raw_config ''15-1'') ''issue_range'' = Some (PStr (''15'' @ ''-'' @ ''1''))"
    "CHR ''-'' \<notin> set ''15''" "CHR ''-'' \<notin> set ''1''"
    "plain_int ''15'' = Some 15" "plain_int ''1'' = Some 1"
    by (simp_all add: raw_config_def dict_lookup_def)
  have v: "dict_set (dict_set (raw_config ''15-1'') ''issue_min'' (PInt 15)) ''issue_max'' (PInt 1) =
      raw_config ''15-1'' @ [(PStr ''issue_min'', PInt 15), (PStr ''issue_max'', PInt 1)]"
    by (simp add: raw_config_def)
  from config_loading_fails_iff [where py_int = plain_int and d = "raw_config ''15-1''"
      and a = "''15''" and b = "''1''" and lo = 15 and hi = 1] h
  have "load_project_config plain_int (Loaded (PDict (raw_config ''15-1''))) =
      Inr (dict_set (dict_set (raw_config ''15-1'') ''issue_min'' (PInt 15)) ''issue_max'' (PInt 1))"
    by blast
  then show ?thesis by (simp add: v)
qed

text \<open>
  The claim as it is written lets the issue range be any two integers separated by a
  hyphen. The string -5-10 is the integer -5, a hyphen and the integer 10, and no
  required field is missing; the code splits it at every hyphen into three pieces and
  reports a malformed range.
\<close>

theorem signed_bound_rejected:
  "py_contains (PDict (raw_config ''-5-10'')) ''target_repo'' = Inr True
   \<and> py_contains (PDict (raw_config ''-5-10'')) ''expected_labels'' = Inr True
   \<and> py_contains (PDict (raw_config ''-5-10'')) ''issue_range'' = Inr True
   \<and> plain_int ''-5'' = Some (- 5) \<and> plain_int ''10'' = Some 10
   \<and> two_integers_separated_by_hyphen plain_int ''-5-10''
   \<and> load_project_config plain_int (Loaded (PDict (raw_config ''-5-10''))) = Inl Bad_issue_range"
  by code_simp

end
